theory Spec2Isabelle
  imports Complex_Main "HOL-Library.Multiset"
begin

section \<open>Python strings\<close>

text \<open>
  A Python \<open>str\<close> is modelled as a \<^typ>\<open>string\<close> holding its UTF-8 bytes, so that the
  emoji icons and the bullet of the knowledge base can be written down. Every label the
  program lower-cases or title-cases (the class names and the sentinel \<open>Error\<close>) is ASCII;
  on such text \<open>str.lower\<close> and \<open>str.title\<close> only touch the letters A-Z and a-z, which is
  what the two functions below do (bytes above 127 are left as they are).
\<close>

text \<open>\<open>d.get(key, default)\<close> on a dictionary given as an association list.\<close>

definition dict_get :: "('k \<times> 'v) list \<Rightarrow> 'k \<Rightarrow> 'v \<Rightarrow> 'v" where
  "dict_get d k dflt = (case map_of d k of None \<Rightarrow> dflt | Some v \<Rightarrow> v)"

definition ascii_uppercase :: string where
  "ascii_uppercase = ''ABCDEFGHIJKLMNOPQRSTUVWXYZ''"

definition ascii_lowercase :: string where
  "ascii_lowercase = ''abcdefghijklmnopqrstuvwxyz''"

definition is_upper :: "char \<Rightarrow> bool" where
  "is_upper c = (c \<in> set ascii_uppercase)"

definition is_lower :: "char \<Rightarrow> bool" where
  "is_lower c = (c \<in> set ascii_lowercase)"

definition to_lower :: "char \<Rightarrow> char" where
  "to_lower c = dict_get (zip ascii_uppercase ascii_lowercase) c c"

definition to_upper :: "char \<Rightarrow> char" where
  "to_upper c = dict_get (zip ascii_lowercase ascii_uppercase) c c"

text \<open>\<open>s.lower()\<close>\<close>

definition lower :: "string \<Rightarrow> string" where
  "lower s = map to_lower s"

text \<open>
  \<open>s.title()\<close>: a letter that follows a letter is lower-cased, any other letter is
  upper-cased; the flag says whether the previous character was a letter.
\<close>

fun title_from :: "bool \<Rightarrow> string \<Rightarrow> string" where
  "title_from prev [] = []"
| "title_from prev (c # cs) =
     (if is_upper c \<or> is_lower c
      then (if prev then to_lower c else to_upper c) # title_from True cs
      else c # title_from False cs)"

definition title :: "string \<Rightarrow> string" where
  "title s = title_from False s"

text \<open>\<open>str(n)\<close> for a non-negative integer, as used by \<open>f"Case #{case_number}"\<close>.\<close>

fun str_nat :: "nat \<Rightarrow> string" where
  "str_nat n =
     (if n < 10 then [''0123456789'' ! n]
      else str_nat (n div 10) @ [''0123456789'' ! (n mod 10)])"

section \<open>The diagnosis knowledge base (\<open>ui_components.DiagnosisData\<close>)\<close>

text \<open>
  The three class-level dictionaries, as association lists in source order. Icons are
  named after the Unicode name of their first code point and expand to their UTF-8 bytes.
\<close>

abbreviation bullet :: string where  (* U+2022 *)
  "bullet \<equiv> [CHR 0xE2, CHR 0x80, CHR 0xA2]"

abbreviation icon_white_heavy_check_mark :: string where  (* U+2705 *)
  "icon_white_heavy_check_mark \<equiv> [CHR 0xE2, CHR 0x9C, CHR 0x85]"

abbreviation icon_tooth :: string where  (* U+1F9B7 *)
  "icon_tooth \<equiv> [CHR 0xF0, CHR 0x9F, CHR 0xA6, CHR 0xB7]"

abbreviation icon_straight_ruler :: string where  (* U+1F4CF *)
  "icon_straight_ruler \<equiv> [CHR 0xF0, CHR 0x9F, CHR 0x93, CHR 0x8F]"

abbreviation icon_microscope :: string where  (* U+1F52C *)
  "icon_microscope \<equiv> [CHR 0xF0, CHR 0x9F, CHR 0x94, CHR 0xAC]"

abbreviation icon_sparkles :: string where  (* U+2728 *)
  "icon_sparkles \<equiv> [CHR 0xE2, CHR 0x9C, CHR 0xA8]"

abbreviation icon_herb :: string where  (* U+1F33F *)
  "icon_herb \<equiv> [CHR 0xF0, CHR 0x9F, CHR 0x8C, CHR 0xBF]"

abbreviation icon_left_pointing_magnifying_glass :: string where  (* U+1F50D *)
  "icon_left_pointing_magnifying_glass \<equiv> [CHR 0xF0, CHR 0x9F, CHR 0x94, CHR 0x8D]"

abbreviation icon_heavy_large_circle :: string where  (* U+2B55 *)
  "icon_heavy_large_circle \<equiv> [CHR 0xE2, CHR 0xAD, CHR 0x95]"

abbreviation icon_fire :: string where  (* U+1F525 *)
  "icon_fire \<equiv> [CHR 0xF0, CHR 0x9F, CHR 0x94, CHR 0xA5]"

abbreviation icon_bone :: string where  (* U+1F9B4 *)
  "icon_bone \<equiv> [CHR 0xF0, CHR 0x9F, CHR 0xA6, CHR 0xB4]"

abbreviation icon_face_without_mouth :: string where  (* U+1F636 *)
  "icon_face_without_mouth \<equiv> [CHR 0xF0, CHR 0x9F, CHR 0x98, CHR 0xB6]"

abbreviation icon_round_pushpin :: string where  (* U+1F4CD *)
  "icon_round_pushpin \<equiv> [CHR 0xF0, CHR 0x9F, CHR 0x93, CHR 0x8D]"

abbreviation icon_warning_sign :: string where  (* U+26A0 U+FE0F *)
  "icon_warning_sign \<equiv> [CHR 0xE2, CHR 0x9A, CHR 0xA0, CHR 0xEF, CHR 0xB8, CHR 0x8F]"

abbreviation icon_left_right_arrow :: string where  (* U+2194 U+FE0F *)
  "icon_left_right_arrow \<equiv> [CHR 0xE2, CHR 0x86, CHR 0x94, CHR 0xEF, CHR 0xB8, CHR 0x8F]"

abbreviation icon_triangular_ruler :: string where  (* U+1F4D0 *)
  "icon_triangular_ruler \<equiv> [CHR 0xF0, CHR 0x9F, CHR 0x93, CHR 0x90]"

abbreviation icon_hammer :: string where  (* U+1F528 *)
  "icon_hammer \<equiv> [CHR 0xF0, CHR 0x9F, CHR 0x94, CHR 0xA8]"

abbreviation icon_black_question_mark_ornament :: string where  (* U+2753 *)
  "icon_black_question_mark_ornament \<equiv> [CHR 0xE2, CHR 0x9D, CHR 0x93]"

abbreviation icon_direct_hit :: string where  (* U+1F3AF *)
  "icon_direct_hit \<equiv> [CHR 0xF0, CHR 0x9F, CHR 0x8E, CHR 0xAF]"

abbreviation icon_broken_heart :: string where  (* U+1F494 *)
  "icon_broken_heart \<equiv> [CHR 0xF0, CHR 0x9F, CHR 0x92, CHR 0x94]"

abbreviation icon_skull :: string where  (* U+1F480 *)
  "icon_skull \<equiv> [CHR 0xF0, CHR 0x9F, CHR 0x92, CHR 0x80]"

abbreviation icon_bar_chart :: string where  (* U+1F4CA *)
  "icon_bar_chart \<equiv> [CHR 0xF0, CHR 0x9F, CHR 0x93, CHR 0x8A]"

abbreviation icon_high_voltage_sign :: string where  (* U+26A1 *)
  "icon_high_voltage_sign \<equiv> [CHR 0xE2, CHR 0x9A, CHR 0xA1]"

abbreviation icon_black_square_button :: string where  (* U+1F532 *)
  "icon_black_square_button \<equiv> [CHR 0xF0, CHR 0x9F, CHR 0x94, CHR 0xB2]"

abbreviation icon_north_east_arrow :: string where  (* U+2197 U+FE0F *)
  "icon_north_east_arrow \<equiv> [CHR 0xE2, CHR 0x86, CHR 0x97, CHR 0xEF, CHR 0xB8, CHR 0x8F]"

abbreviation icon_calendar :: string where  (* U+1F4C5 *)
  "icon_calendar \<equiv> [CHR 0xF0, CHR 0x9F, CHR 0x93, CHR 0x85]"

abbreviation icon_camera_with_flash :: string where  (* U+1F4F8 *)
  "icon_camera_with_flash \<equiv> [CHR 0xF0, CHR 0x9F, CHR 0x93, CHR 0xB8]"

abbreviation icon_books :: string where  (* U+1F4DA *)
  "icon_books \<equiv> [CHR 0xF0, CHR 0x9F, CHR 0x93, CHR 0x9A]"

abbreviation icon_busts_in_silhouette :: string where  (* U+1F465 *)
  "icon_busts_in_silhouette \<equiv> [CHR 0xF0, CHR 0x9F, CHR 0x91, CHR 0xA5]"

abbreviation icon_pill :: string where  (* U+1F48A *)
  "icon_pill \<equiv> [CHR 0xF0, CHR 0x9F, CHR 0x92, CHR 0x8A]"

abbreviation icon_bar_of_soap :: string where  (* U+1F9FC *)
  "icon_bar_of_soap \<equiv> [CHR 0xF0, CHR 0x9F, CHR 0xA7, CHR 0xBC]"

abbreviation icon_syringe :: string where  (* U+1F489 *)
  "icon_syringe \<equiv> [CHR 0xF0, CHR 0x9F, CHR 0x92, CHR 0x89]"

abbreviation icon_black_scissors :: string where  (* U+2702 U+FE0F *)
  "icon_black_scissors \<equiv> [CHR 0xE2, CHR 0x9C, CHR 0x82, CHR 0xEF, CHR 0xB8, CHR 0x8F]"

definition FINDINGS_MAP :: "(string \<times> (string \<times> string) list) list" where
  "FINDINGS_MAP =
  [   (''nil control'',
     [(icon_white_heavy_check_mark, ''Normal periapical appearance''),
      (icon_tooth, ''Intact lamina dura''),
      (icon_straight_ruler, ''Normal periodontal ligament space width''),
      (icon_microscope, ''Healthy bone trabeculation''),
      (icon_sparkles, ''No pathological findings''),
      (icon_herb, ''Normal root morphology'')]),
   (''condensing osteitis'',
     [(icon_left_pointing_magnifying_glass, ''Increased bone density around apex''),
      (icon_heavy_large_circle, ''Well-defined radioopaque lesion''),
      (icon_fire, ''Associated with chronic low-grade inflammation''),
      (icon_bone, ''Localized sclerotic bone reaction''),
      (icon_face_without_mouth, ''Usually asymptomatic''),
      (icon_round_pushpin, ''Commonly seen in mandibular posterior teeth'')]),
   (''diffuse lesion'',
     [(icon_warning_sign, ''Poorly defined radiolucent area''),
      (icon_left_right_arrow, ''Irregular borders''),
      (icon_triangular_ruler, ''Variable size and shape''),
      (icon_tooth, ''May involve multiple teeth''),
      (icon_hammer, ''Possible bone destruction pattern''),
      (icon_black_question_mark_ornament, ''Unclear demarcation from healthy bone'')]),
   (''periapical abcess'',
     [(icon_direct_hit, ''Well-defined radiolucent area at apex''),
      (icon_broken_heart, ''Disrupted lamina dura''),
      (icon_straight_ruler, ''Widened periodontal ligament space''),
      (icon_bone, ''Evidence of bone destruction''),
      (icon_left_right_arrow, ''May show diffuse borders in acute phase''),
      (icon_skull, ''Associated with non-vital tooth'')]),
   (''periapical granuloma'',
     [(icon_heavy_large_circle, ''Small round/oval radiolucency at apex''),
      (icon_straight_ruler, ''Well-defined borders''),
      (icon_bar_chart, ''Size typically < 1cm in diameter''),
      (icon_broken_heart, ''Loss of lamina dura''),
      (icon_skull, ''Associated with non-vital tooth''),
      (icon_left_pointing_magnifying_glass, ''Uniform radiolucent appearance'')]),
   (''periapical widening'',
     [(icon_straight_ruler, ''Increased PDL space width''),
      (icon_high_voltage_sign, ''Early stage of periapical pathology''),
      (icon_left_right_arrow, ''Continuous with periodontal ligament''),
      (icon_fire, ''May indicate pulpal inflammation''),
      (icon_bar_chart, ''Usually uniform widening''),
      (icon_tooth, ''Intact lamina dura'')]),
   (''pericoronitis'',
     [(icon_tooth, ''Partially erupted tooth (usually third molar)''),
      (icon_microscope, ''Soft tissue opacification over crown''),
      (icon_warning_sign, ''Possible bone loss around crown''),
      (icon_straight_ruler, ''Widened follicular space''),
      (icon_round_pushpin, ''May show impaction pattern''),
      (icon_white_heavy_check_mark, ''Adjacent bone appears normal'')]),
   (''radicular cyst'',
     [(icon_heavy_large_circle, ''Large well-defined radiolucency''),
      (icon_straight_ruler, ''Usually > 1cm in diameter''),
      (icon_black_square_button, ''Corticated border''),
      (icon_heavy_large_circle, ''Round or oval shape''),
      (icon_north_east_arrow, ''May cause root displacement''),
      (icon_skull, ''Associated with non-vital tooth'')])]"

definition RECOMMENDATIONS_MAP :: "(string \<times> (string \<times> string) list) list" where
  "RECOMMENDATIONS_MAP =
  [   (''nil control'',
     [(icon_calendar, ''Regular dental check-ups every 6 months''),
      (icon_tooth, ''Maintain good oral hygiene''),
      (icon_camera_with_flash, ''Routine radiographic monitoring''),
      (icon_books, ''Patient education on preventive care'')]),
   (''condensing osteitis'',
     [(icon_high_voltage_sign, ''Pulp vitality testing required''),
      (icon_tooth, ''Evaluate need for endodontic treatment''),
      (icon_left_pointing_magnifying_glass, ''Regular monitoring of bone density''),
      (icon_bar_chart, ''Assessment of adjacent teeth''),
      (icon_calendar, ''Follow-up in 3 months'')]),
   (''diffuse lesion'',
     [(icon_left_pointing_magnifying_glass, ''Comprehensive clinical examination needed''),
      (icon_camera_with_flash, ''Consider CBCT imaging''),
      (icon_microscope, ''Biopsy may be necessary''),
      (icon_busts_in_silhouette, ''Specialist consultation recommended''),
      (icon_calendar, ''Close monitoring required'')]),
   (''periapical abcess'',
     [(icon_high_voltage_sign, ''Immediate endodontic intervention required''),
      (icon_pill, ''Consider antibiotic prescription''),
      (icon_hammer, ''Possible incision and drainage''),
      (icon_tooth, ''Root canal treatment needed''),
      (icon_calendar, ''Short-term follow-up essential'')]),
   (''periapical granuloma'',
     [(icon_tooth, ''Root canal treatment indicated''),
      (icon_left_pointing_magnifying_glass, ''Regular radiographic monitoring''),
      (icon_calendar, ''Follow-up every 3-6 months''),
      (icon_bar_chart, ''Assessment of healing progress''),
      (icon_busts_in_silhouette, ''Endodontist consultation if needed'')]),
   (''periapical widening'',
     [(icon_high_voltage_sign, ''Pulp vitality testing essential''),
      (icon_left_pointing_magnifying_glass, ''Identify cause of inflammation''),
      (icon_tooth, ''Consider occlusal adjustment''),
      (icon_calendar, ''Regular monitoring needed''),
      (icon_bar_chart, ''Track changes over time'')]),
   (''pericoronitis'',
     [(icon_bar_of_soap, ''Local irrigation and debridement''),
      (icon_pill, ''Antibiotics if systemically involved''),
      (icon_syringe, ''Pain management required''),
      (icon_black_scissors, ''Consider surgical extraction''),
      (icon_calendar, ''Short-term follow-up needed'')]),
   (''radicular cyst'',
     [(icon_tooth, ''Root canal treatment required''),
      (icon_black_scissors, ''Surgical enucleation may be needed''),
      (icon_microscope, ''Histopathological examination''),
      (icon_camera_with_flash, ''Regular radiographic monitoring''),
      (icon_busts_in_silhouette, ''Oral surgeon consultation recommended'')])]"

definition MANAGEMENT_MAP :: "(string \<times> (string \<times> string list) list) list" where
  "MANAGEMENT_MAP =
  [   (''nil control'',
     [(''Immediate Action'',
        [bullet @ '' Document baseline radiographic appearance'',
         bullet @ '' Record current dental status'',
         bullet @ '' Check oral hygiene status'']),
      (''Long-term Plan'',
        [bullet @ '' Regular dental check-ups'',
         bullet @ '' Preventive care measures'',
         bullet @ '' Patient education''])]),
   (''condensing osteitis'',
     [(''Immediate Action'',
        [bullet @ '' Pulp vitality testing'',
         bullet @ '' Pain assessment'',
         bullet @ '' Evaluate need for endodontic treatment'']),
      (''Long-term Plan'',
        [bullet @ '' Monitor bone density changes'',
         bullet @ '' Regular radiographic assessment'',
         bullet @ '' Address primary inflammation source''])]),
   (''diffuse lesion'',
     [(''Immediate Action'',
        [bullet @ '' Comprehensive examination'',
         bullet @ '' Additional imaging (CBCT)'',
         bullet @ '' Consider biopsy'']),
      (''Long-term Plan'',
        [bullet @ '' Regular monitoring'',
         bullet @ '' Specialist referral if needed'',
         bullet @ '' Treatment based on biopsy results''])]),
   (''periapical abcess'',
     [(''Immediate Action'',
        [bullet @ '' Emergency drainage if needed'',
         bullet @ '' Antibiotic prescription'',
         bullet @ '' Pain management'']),
      (''Long-term Plan'',
        [bullet @ '' Complete root canal treatment'',
         bullet @ '' Regular follow-up'',
         bullet @ '' Monitor healing progress''])]),
   (''periapical granuloma'',
     [(''Immediate Action'',
        [bullet @ '' Start root canal treatment'',
         bullet @ '' Pain management if needed'',
         bullet @ '' Assess tooth restorability'']),
      (''Long-term Plan'',
        [bullet @ '' Complete endodontic therapy'',
         bullet @ '' Regular radiographic assessment'',
         bullet @ '' Monitor healing''])]),
   (''periapical widening'',
     [(''Immediate Action'',
        [bullet @ '' Pulp vitality testing'',
         bullet @ '' Identify inflammation cause'',
         bullet @ '' Occlusal analysis'']),
      (''Long-term Plan'',
        [bullet @ '' Monitor PDL width changes'',
         bullet @ '' Regular follow-up'',
         bullet @ '' Address contributing factors''])]),
   (''pericoronitis'',
     [(''Immediate Action'',
        [bullet @ '' Local debridement'',
         bullet @ '' Prescribe antibiotics if needed'',
         bullet @ '' Pain management'']),
      (''Long-term Plan'',
        [bullet @ '' Evaluate for extraction'',
         bullet @ '' Improve oral hygiene'',
         bullet @ '' Regular monitoring''])]),
   (''radicular cyst'',
     [(''Immediate Action'',
        [bullet @ '' Start root canal treatment'',
         bullet @ '' Plan surgical intervention'',
         bullet @ '' Pain management if needed'']),
      (''Long-term Plan'',
        [bullet @ '' Complete endodontic therapy'',
         bullet @ '' Surgical enucleation'',
         bullet @ '' Regular radiographic monitoring''])])]"

section \<open>The inference engine (\<open>model_handler.ModelHandler\<close>)\<close>

text \<open>Python exceptions that the modelled code can raise, as values.\<close>

datatype exn =
    KeyError string
  | IndexError string
  | ValueError string
  | ZeroDivisionError
  | OSError string
  | LayoutError string

text \<open>\<open>str(e)\<close>: the message; a \<open>KeyError\<close> prints its key in quotes.\<close>

fun str_exn :: "exn \<Rightarrow> string" where
  "str_exn (KeyError k) = [CHR 0x27] @ k @ [CHR 0x27]"
| "str_exn (IndexError m) = m"
| "str_exn (ValueError m) = m"
| "str_exn ZeroDivisionError = ''division by zero''"
| "str_exn (OSError m) = m"
| "str_exn (LayoutError m) = m"

definition class_names :: "string list" where
  "class_names =
    [''Nil control'',
     ''condensing osteitis'',
     ''diffuse lesion'',
     ''periapical abcess'',
     ''periapical granuloma'',
     ''periapical widening'',
     ''pericoronitis'',
     ''radicular cyst'']"

text \<open>
  What the handler gets from its libraries is a parameter of the model. \<open>'t\<close> is the type
  of image tensors.
  \<^item> \<open>open_rgb path\<close> stands for the body of \<open>preprocess_image\<close>'s \<open>try\<close>: PIL's
    \<open>Image.open(path).convert('RGB')\<close>, the fixed resize/normalize transform and
    \<open>unsqueeze\<close>; \<open>None\<close> when any of them raises.
  \<^item> \<open>model t\<close> is the forward pass \<open>self.model(image_tensor)\<close> of the loaded network in
    evaluation mode: the row of logits, or \<open>None\<close> when it raises. Logits and
    probabilities are real numbers here (the code computes them in 32-bit floating point).
  \<^item> \<open>torch_topk xs k\<close> is \<open>torch.topk\<close> on a row: the values and the indices, or \<open>None\<close>
    when it raises.
\<close>

record 't model_handler =
  open_rgb :: "string \<Rightarrow> 't option"
  model :: "'t \<Rightarrow> real list option"
  torch_topk :: "real list \<Rightarrow> int \<Rightarrow> (real list \<times> nat list) option"


text \<open>
  Two functions that meet the contract, used to run the model on concrete inputs. Both
  sort the (value, index) pairs in descending order of value and cut after \<open>k\<close>. They
  differ on equal values only: \<open>topk_stable\<close> returns the lower index first,
  \<open>topk_last\<close> the higher one.
\<close>

definition topk_stable :: "real list \<Rightarrow> int \<Rightarrow> (real list \<times> nat list) option" where
  "topk_stable xs k =
    (if k < 0 \<or> int (length xs) < k then None
     else let ranked = take (nat k) (sort_key (\<lambda>p. - fst p) (zip xs [0..<length xs]))
          in Some (map fst ranked, map snd ranked))"


text \<open>\<open>F.softmax(outputs, dim=1)\<close> on the single row of the batch.\<close>

definition softmax :: "real list \<Rightarrow> real list" where
  "softmax outputs = map (\<lambda>x. exp x / sum_list (map exp outputs)) outputs"

text \<open>The fallback that \<open>predict\<close> and the worker return on failure.\<close>

definition error_result :: "(string \<times> real) list" where
  "error_result = [(''Error'', 0)]"

text \<open>\<open>ModelHandler.preprocess_image\<close>: the tensor, or \<open>None\<close> after any exception.\<close>

definition preprocess_image :: "'t model_handler \<Rightarrow> string \<Rightarrow> 't option" where
  "preprocess_image h image_path = open_rgb h image_path"

text \<open>
  \<open>ModelHandler.predict\<close>. Every exception inside the \<open>try\<close> (the forward pass, \<open>topk\<close>,
  an index outside \<open>class_names\<close>) ends in the \<open>except\<close> branch, which returns the fallback.
\<close>

definition predict :: "'t model_handler \<Rightarrow> 't \<Rightarrow> int \<Rightarrow> (string \<times> real) list" where
  "predict h image_tensor top_k =
    (case model h image_tensor of
       None \<Rightarrow> error_result
     | Some outputs \<Rightarrow>
        (case torch_topk h (softmax outputs) top_k of
           None \<Rightarrow> error_result
         | Some (confidences, predictions) \<Rightarrow>
             (let pairs = zip predictions confidences in
              if list_all (\<lambda>(pred, conf). pred < length class_names) pairs
              then map (\<lambda>(pred, conf). (class_names ! pred, conf)) pairs
              else error_result)))"

section \<open>The per-image worker (\<open>model_handler.PredictionWorker\<close>)\<close>

text \<open>The two signals a worker emits: \<open>finished(results, image_path)\<close> and \<open>error(message)\<close>.\<close>

datatype signal =
    Finished "(string \<times> real) list" string
  | Error string

text \<open>
  \<open>PredictionWorker.run\<close>, as the list of signals it emits, in order. \<open>top_k\<close> is the
  worker's attribute (3 unless the constructor is given another value).
\<close>

definition run :: "'t model_handler \<Rightarrow> string \<Rightarrow> int \<Rightarrow> signal list" where
  "run h image_path top_k =
    (case preprocess_image h image_path of
       None \<Rightarrow>
         [Error (str_exn (ValueError ''Failed to preprocess image'')),
          Finished error_result image_path]
     | Some image_tensor \<Rightarrow> [Finished (predict h image_tensor top_k) image_path])"

definition is_finished :: "signal \<Rightarrow> bool" where
  "is_finished s = (case s of Finished r p \<Rightarrow> True | Error m \<Rightarrow> False)"


section \<open>The case card (\<open>ui_components.ImageCard\<close>)\<close>

text \<open>
  What a card shows, in the order \<open>setup_ui\<close> adds it to the card's layout. Styling is left
  out. The confidence label keeps the number that \<open>f"{confidence_score:.1f}%"\<close> formats.
\<close>

datatype card_widget =
    ImageSection string
  | DiagnosisHeader string
  | FindingsGroup "string list"
  | ConfidenceSection real
  | ManagementGroup "string list" "string list"
  | RecommendationsGroup "string list"

record image_card =
  image_path :: string
  predictions :: "(string \<times> real) list"
  primary_diagnosis :: string
  widgets :: "card_widget list"

text \<open>\<open>f"{icon} {text}"\<close>\<close>

definition icon_text :: "string \<times> string \<Rightarrow> string" where
  "icon_text item = fst item @ '' '' @ snd item"

text \<open>
  \<open>ImageCard._get_findings_for_diagnosis\<close> and \<open>ImageCard._get_recommendations\<close>; they
  read nothing of the card but its primary diagnosis.
\<close>

definition get_findings_for_diagnosis :: "string \<Rightarrow> (string \<times> string) list" where
  "get_findings_for_diagnosis diagnosis = dict_get FINDINGS_MAP diagnosis []"

definition get_recommendations :: "string \<Rightarrow> (string \<times> string) list" where
  "get_recommendations diagnosis = dict_get RECOMMENDATIONS_MAP diagnosis []"

text \<open>\<open>_add_image_section\<close>: \<open>QPixmap\<close> does not raise on a file it cannot read.\<close>

definition add_image_section :: "string \<Rightarrow> card_widget list" where
  "add_image_section path = [ImageSection path]"

definition add_diagnosis_section :: "string \<Rightarrow> card_widget list" where
  "add_diagnosis_section diagnosis =
    [DiagnosisHeader
       (icon_left_pointing_magnifying_glass @ '' Diagnosis: '' @ title diagnosis),
     FindingsGroup (map icon_text (get_findings_for_diagnosis diagnosis))]"

definition add_confidence_section :: "(string \<times> real) list \<Rightarrow> card_widget list" where
  "add_confidence_section preds =
    [ConfidenceSection (case preds of [] \<Rightarrow> 0 | p # ps \<Rightarrow> snd p * 100)]"

text \<open>
  \<open>_add_management_section\<close>: nothing is added when the lookup gives \<open>None\<close> or an empty
  dictionary; a plan that lacks one of its two keys raises \<open>KeyError\<close>.
\<close>

definition add_management_section :: "string \<Rightarrow> exn + card_widget list" where
  "add_management_section diagnosis =
    (case map_of MANAGEMENT_MAP diagnosis of
       None \<Rightarrow> Inr []
     | Some management_data \<Rightarrow>
         if management_data = [] then Inr []
         else (case map_of management_data ''Immediate Action'' of
                 None \<Rightarrow> Inl (KeyError ''Immediate Action'')
               | Some actions \<Rightarrow>
                  (case map_of management_data ''Long-term Plan'' of
                     None \<Rightarrow> Inl (KeyError ''Long-term Plan'')
                   | Some plans \<Rightarrow> Inr [ManagementGroup actions plans])))"

definition add_recommendations_section :: "string \<Rightarrow> card_widget list" where
  "add_recommendations_section diagnosis =
    (let recommendations = get_recommendations diagnosis in
     if recommendations = [] then []
     else [RecommendationsGroup (map icon_text recommendations)])"

definition setup_ui :: "string \<Rightarrow> (string \<times> real) list \<Rightarrow> string \<Rightarrow> exn + card_widget list" where
  "setup_ui path preds diagnosis =
    (case add_management_section diagnosis of
       Inl e \<Rightarrow> Inl e
     | Inr management \<Rightarrow>
         Inr (add_image_section path @ add_diagnosis_section diagnosis @
              add_confidence_section preds @ management @
              add_recommendations_section diagnosis))"

text \<open>\<open>ImageCard.__init__\<close>\<close>

definition ImageCard :: "string \<Rightarrow> (string \<times> real) list \<Rightarrow> exn + image_card" where
  "ImageCard path preds =
    (let diagnosis = (case preds of [] \<Rightarrow> ''unknown'' | p # ps \<Rightarrow> lower (fst p)) in
     case setup_ui path preds diagnosis of
       Inl e \<Rightarrow> Inl e
     | Inr ws \<Rightarrow>
         Inr \<lparr>image_path = path, predictions = preds,
              primary_diagnosis = diagnosis, widgets = ws\<rparr>)"

section \<open>The report (\<open>report_generator\<close>)\<close>

text \<open>
  The dictionary \<open>prepare_case_data\<close> builds. \<open>_add_case\<close> tests whether the keys
  \<open>management\<close> and \<open>recommendations\<close> are present, so these two are optional here.
\<close>

record case_dict =
  case_image_path :: string
  case_diagnosis :: string
  case_confidence :: real
  case_findings :: "string list"
  case_recommendations :: "(string \<times> string) list option"
  case_management :: "(string \<times> string list) list option"

text \<open>\<open>prepare_case_data\<close>: \<open>predictions[0]\<close> raises on a card without predictions.\<close>

definition prepare_case_data :: "image_card \<Rightarrow> exn + case_dict" where
  "prepare_case_data image_card =
    (case predictions image_card of
       [] \<Rightarrow> Inl (IndexError ''list index out of range'')
     | p # ps \<Rightarrow>
         Inr \<lparr>case_image_path = image_path image_card,
              case_diagnosis = title (primary_diagnosis image_card),
              case_confidence = snd p * 100,
              case_findings = map icon_text (get_findings_for_diagnosis (primary_diagnosis image_card)),
              case_recommendations = Some (get_recommendations (primary_diagnosis image_card)),
              case_management = Some (dict_get MANAGEMENT_MAP (primary_diagnosis image_card) [])\<rparr>)"

text \<open>
  The story is the list of flowables handed to \<open>doc.build\<close>. Styles are kept by name,
  table and paragraph styling is left out. \<open>ParagraphPercent\<close> is the paragraph
  \<open>f"Confidence: {case['confidence']:.1f}%"\<close> with its number unformatted.
\<close>

datatype flowable =
    Paragraph string string
  | ParagraphPercent string real string
  | Spacer nat nat
  | ImageFlowable string nat int
  | Table "flowable list list"

text \<open>
  What the report generator gets from outside:
  \<^item> \<open>pil_open path\<close> stands for \<open>PILImage.open\<close> and the re-encoding as PNG: the width and
    height of the image, or \<open>None\<close> when one of them raises;
  \<^item> \<open>scaled_height width height\<close> is \<open>int(img_width * aspect)\<close> with
    \<open>aspect = img.height / img.width\<close> and \<open>img_width = 400\<close>, as Python computes it in
    double precision (the quotient is rounded before it is multiplied, so the result can
    be one below the exact value);
  \<^item> \<open>now\<close> is the formatted time stamp of the header;
  \<^item> \<open>build_error path story\<close> is the exception \<open>doc.build(story)\<close> raises for the
    document at \<open>path\<close>, \<open>None\<close> when the build succeeds. It depends on the path (the file
    cannot be written) and on the story (a flowable too large for the page).
  The file system maps a path to the story of the document written there.
\<close>

record report_env =
  pil_open :: "string \<Rightarrow> (nat \<times> nat) option"
  scaled_height :: "nat \<Rightarrow> nat \<Rightarrow> int"
  now :: string
  build_error :: "string \<Rightarrow> flowable list \<Rightarrow> exn option"

type_synonym filesystem = "string \<Rightarrow> flowable list option"

text \<open>\<open>ReportGenerator._add_header\<close>\<close>

definition add_header :: "report_env \<Rightarrow> flowable list \<Rightarrow> flowable list" where
  "add_header renv story =
    story @
    [Table [[Paragraph icon_tooth ''ReportTitle'',
             Paragraph ''DentAI Pro - Dental X-Ray Analysis Report'' ''ReportTitle'']],
     Paragraph (''Generated on: '' @ now renv) ''Normal'',
     Paragraph ''Powered by AI for accurate dental pathology detection'' ''Subtitle'']"

text \<open>\<open>ReportGenerator._add_section\<close>: the table is left out when there are no items.\<close>

definition add_section :: "flowable list \<Rightarrow> string \<Rightarrow> string list \<Rightarrow> flowable list" where
  "add_section story section_title items =
    (let data = map (\<lambda>item. [Paragraph (bullet @ '' '' @ item) ''Normal'']) items in
     story @ [Paragraph section_title ''SectionTitle''] @
     (if data = [] then [] else [Table data]) @ [Spacer 1 10])"

text \<open>
  The image block of \<open>_add_case\<close>: whatever is raised inside its \<open>try\<close> (the file cannot be
  opened, a width of zero in the aspect ratio) is caught and replaced by the placeholder.
\<close>

definition add_case_image :: "report_env \<Rightarrow> string \<Rightarrow> flowable list" where
  "add_case_image renv path =
    (case pil_open renv path of
       None \<Rightarrow> [Paragraph ''Error: Could not load image'' ''Normal'']
     | Some (img_width, img_height) \<Rightarrow>
         if img_width = 0 then [Paragraph ''Error: Could not load image'' ''Normal'']
         else [ImageFlowable path 400 (scaled_height renv img_width img_height),
               Spacer 1 20])"

text \<open>
  The management block of \<open>_add_case\<close>: taken when the key \<open>management\<close> is in the
  dictionary, and then both keys of the plan are read with \<open>[...]\<close>.
\<close>

definition add_case_management ::
  "flowable list \<Rightarrow> (string \<times> string list) list option \<Rightarrow> exn + flowable list" where
  "add_case_management story management =
    (case management of
       None \<Rightarrow> Inr story
     | Some plan \<Rightarrow>
        (case map_of plan ''Immediate Action'' of
           None \<Rightarrow> Inl (KeyError ''Immediate Action'')
         | Some actions \<Rightarrow>
            (case map_of plan ''Long-term Plan'' of
               None \<Rightarrow> Inl (KeyError ''Long-term Plan'')
             | Some plans \<Rightarrow>
                 Inr (add_section (add_section story ''Immediate Action Required'' actions)
                        ''Long-term Management Plan'' plans))))"

text \<open>\<open>ReportGenerator._add_case\<close>\<close>

definition add_case :: "report_env \<Rightarrow> flowable list \<Rightarrow> case_dict \<Rightarrow> nat \<Rightarrow> exn + flowable list" where
  "add_case renv story c case_number =
    (let story1 = story @ [Paragraph (''Case #'' @ str_nat case_number) ''CaseNumber''];
         story2 = story1 @ add_case_image renv (case_image_path c);
         story3 = story2 @
           [Table [[Paragraph (''Diagnosis: '' @ case_diagnosis c) ''DiagnosisText'',
                    ParagraphPercent ''Confidence: '' (case_confidence c) ''Normal'']],
            Spacer 1 20];
         story4 = add_section story3 ''Initial Radiographic Assessment'' (case_findings c)
     in case add_case_management story4 (case_management c) of
          Inl e \<Rightarrow> Inl e
        | Inr story5 \<Rightarrow>
            Inr (case case_recommendations c of
                   None \<Rightarrow> story5
                 | Some recs \<Rightarrow>
                     add_section story5 ''Clinical Recommendations'' (map icon_text recs)))"

text \<open>The loop of \<open>generate_report\<close> over \<open>enumerate(cases, 1)\<close>, from number \<open>idx\<close> on.\<close>

fun add_cases :: "report_env \<Rightarrow> flowable list \<Rightarrow> case_dict list \<Rightarrow> nat \<Rightarrow> exn + flowable list" where
  "add_cases renv story [] idx = Inr story"
| "add_cases renv story (c # cs) idx =
    (case add_case renv story c idx of
       Inl e \<Rightarrow> Inl e
     | Inr story' \<Rightarrow> add_cases renv (story' @ [Spacer 1 30]) cs (idx + 1))"

text \<open>
  \<open>doc.build(story)\<close>, the only step that writes. A failed build is modelled as leaving
  the file system as it was.
\<close>

definition doc_build ::
  "report_env \<Rightarrow> filesystem \<Rightarrow> string \<Rightarrow> flowable list \<Rightarrow> (exn + bool) \<times> filesystem" where
  "doc_build renv fs file_path story =
    (case build_error renv file_path story of
       None \<Rightarrow> (Inr True, fs(file_path \<mapsto> story))
     | Some e \<Rightarrow> (Inl e, fs))"

text \<open>\<open>ReportGenerator.generate_report\<close>: every exception is logged and raised again.\<close>

definition generate_report ::
  "report_env \<Rightarrow> filesystem \<Rightarrow> string \<Rightarrow> case_dict list \<Rightarrow> (exn + bool) \<times> filesystem" where
  "generate_report renv fs file_path cases =
    (case add_cases renv (add_header renv []) cases 1 of
       Inl e \<Rightarrow> (Inl e, fs)
     | Inr story \<Rightarrow> doc_build renv fs file_path story)"

section \<open>The main window (\<open>main_window.DentalXRayAnalyzer\<close>)\<close>

text \<open>
  Qt's \<open>QProgressBar\<close>, as far as the window uses it. A new bar has the range 0 to 100
  and the value -1. \<open>setValue\<close> ignores a value outside the range (unless the range is
  0 to 0); \<open>setMaximum\<close> lowers the minimum if it must and resets a value that falls
  outside the new range.
\<close>

record progress_bar =
  pb_minimum :: int
  pb_maximum :: int
  pb_value :: int
  pb_visible :: bool

definition new_progress_bar :: progress_bar where
  "new_progress_bar = \<lparr>pb_minimum = 0, pb_maximum = 100, pb_value = - 1, pb_visible = True\<rparr>"

definition setVisible :: "progress_bar \<Rightarrow> bool \<Rightarrow> progress_bar" where
  "setVisible bar v = bar\<lparr>pb_visible := v\<rparr>"

definition setValue :: "progress_bar \<Rightarrow> int \<Rightarrow> progress_bar" where
  "setValue bar v =
    (if pb_value bar = v \<or>
        ((v > pb_maximum bar \<or> v < pb_minimum bar) \<and>
         (pb_maximum bar \<noteq> 0 \<or> pb_minimum bar \<noteq> 0))
     then bar
     else bar\<lparr>pb_value := v\<rparr>)"

definition setRange :: "progress_bar \<Rightarrow> int \<Rightarrow> int \<Rightarrow> progress_bar" where
  "setRange bar lo hi =
    (if lo \<noteq> pb_minimum bar \<or> hi \<noteq> pb_maximum bar
     then (let bar' = bar\<lparr>pb_minimum := lo, pb_maximum := max lo hi\<rparr> in
           if pb_value bar' < lo - 1 \<or> pb_value bar' > pb_maximum bar'
           then bar'\<lparr>pb_value := lo - 1\<rparr>
           else bar')
     else bar)"

definition setMaximum :: "progress_bar \<Rightarrow> int \<Rightarrow> progress_bar" where
  "setMaximum bar hi = setRange bar (min (pb_minimum bar) hi) hi"

text \<open>The message boxes the window shows: title and text.\<close>

datatype message =
    Warning string string
  | Critical string string
  | Information string string

text \<open>
  The items of \<open>grid_layout\<close>: widgets, and the stretch that \<open>_create_scroll_area\<close> adds
  and that stays the last item. The window only ever inserts case cards; \<open>OtherWidget\<close>
  stands for any widget that fails the \<open>isinstance(widget, ImageCard)\<close> test.
\<close>

datatype qwidget = ImageCardWidget image_card | OtherWidget

datatype layout_item = WidgetItem qwidget | StretchItem

text \<open>
  The window's state. The list \<open>workers\<close> is left out: it only keeps the threads alive
  and is filtered by \<open>_cleanup_workers\<close>.
\<close>

record main_window =
  grid_layout :: "layout_item list"
  progress :: progress_bar
  messages :: "message list"

text \<open>The window after \<open>setup_ui\<close>: the stretch alone, a hidden new progress bar.\<close>

definition new_window :: main_window where
  "new_window =
    \<lparr>grid_layout = [StretchItem],
     progress = setVisible new_progress_bar False,
     messages = []\<rparr>"

text \<open>
  Qt's \<open>QBoxLayout.insertWidget(index, widget)\<close>: a negative index, or one beyond the
  end, appends.
\<close>

definition insertWidget :: "layout_item list \<Rightarrow> int \<Rightarrow> qwidget \<Rightarrow> layout_item list" where
  "insertWidget items index w =
    (if index < 0 \<or> int (length items) < index then items @ [WidgetItem w]
     else take (nat index) items @ [WidgetItem w] @ drop (nat index) items)"

text \<open>
  \<open>load_images\<close>, for the file names the dialog returned. The workers it starts are
  \<open>dispatch\<close>: one run per file name, each with the default \<open>top_k\<close> of 3. Their signals
  reach the window later, through \<open>deliver\<close>.
\<close>

definition load_images :: "main_window \<Rightarrow> string list \<Rightarrow> main_window" where
  "load_images win file_names =
    (if file_names = [] then win
     else win\<lparr>progress :=
            setValue (setMaximum (setVisible (progress win) True) (int (length file_names))) 0\<rparr>)"

definition dispatch :: "'t model_handler \<Rightarrow> string list \<Rightarrow> signal list list" where
  "dispatch h file_names = map (\<lambda>file_name. run h file_name 3) file_names"

text \<open>\<open>_handle_prediction_error\<close>\<close>

definition handle_prediction_error :: "main_window \<Rightarrow> string \<Rightarrow> main_window" where
  "handle_prediction_error win error_message =
    win\<lparr>messages := messages win @
           [Warning ''Prediction Error'' (''Error processing image: '' @ error_message)],
        progress := setValue (progress win) (pb_value (progress win) + 1)\<rparr>"

text \<open>
  \<open>_handle_prediction_result\<close>: an exception while the card is built goes to the error
  handler; nothing after the card is built can raise.
\<close>

definition handle_prediction_result ::
  "main_window \<Rightarrow> (string \<times> real) list \<Rightarrow> string \<Rightarrow> main_window" where
  "handle_prediction_result win preds path =
    (case ImageCard path preds of
       Inl e \<Rightarrow> handle_prediction_error win (str_exn e)
     | Inr card_widget \<Rightarrow>
        (let win1 = win\<lparr>grid_layout :=
                      insertWidget (grid_layout win) (int (length (grid_layout win)) - 1)
                        (ImageCardWidget card_widget)\<rparr>;
             win2 = win1\<lparr>progress := setValue (progress win1) (pb_value (progress win1) + 1)\<rparr>
         in if pb_value (progress win2) = pb_maximum (progress win2)
            then win2\<lparr>progress := setVisible (progress win2) False\<rparr>
            else win2))"

text \<open>A signal reaches the slot connected to it in \<open>_process_image\<close>.\<close>

fun deliver :: "signal \<Rightarrow> main_window \<Rightarrow> main_window" where
  "deliver (Finished preds path) win = handle_prediction_result win preds path"
| "deliver (Error error_message) win = handle_prediction_error win error_message"

text \<open>
  The loop of \<open>_generate_pdf_report\<close> that collects the cases, over the items it visits
  (all but the last). \<open>prepare_case_data\<close> may raise, which ends the loop.
\<close>

fun collect_items :: "layout_item list \<Rightarrow> exn + case_dict list" where
  "collect_items [] = Inr []"
| "collect_items (WidgetItem (ImageCardWidget c) # items) =
    (case prepare_case_data c of
       Inl e \<Rightarrow> Inl e
     | Inr case_data \<Rightarrow>
        (case collect_items items of
           Inl e \<Rightarrow> Inl e
         | Inr cases \<Rightarrow> Inr (case_data # cases)))"
| "collect_items (item # items) = collect_items items"

definition collect_cases :: "layout_item list \<Rightarrow> exn + case_dict list" where
  "collect_cases grid = collect_items (take (length grid - 1) grid)"

text \<open>\<open>_generate_pdf_report\<close>: every exception is logged and raised again.\<close>

definition generate_pdf_report ::
  "report_env \<Rightarrow> main_window \<Rightarrow> filesystem \<Rightarrow> string \<Rightarrow> (exn + bool) \<times> filesystem" where
  "generate_pdf_report renv win fs file_path =
    (case collect_cases (grid_layout win) of
       Inl e \<Rightarrow> (Inl e, fs)
     | Inr cases \<Rightarrow>
         if cases = [] then (Inl (ValueError ''No cases to export''), fs)
         else generate_report renv fs file_path cases)"

text \<open>
  \<open>export_report\<close>, for the file name the save dialog returned (empty when the user
  cancelled). The dialog is not even opened when the layout holds the stretch alone.
\<close>

definition export_report ::
  "report_env \<Rightarrow> main_window \<Rightarrow> filesystem \<Rightarrow> string \<Rightarrow> main_window \<times> filesystem" where
  "export_report renv win fs file_name =
    (if length (grid_layout win) \<le> 1
     then (win\<lparr>messages := messages win @ [Warning ''Warning'' ''No images to export!'']\<rparr>, fs)
     else if file_name = [] then (win, fs)
     else (case generate_pdf_report renv win fs file_name of
             (Inl e, fs') \<Rightarrow>
               (win\<lparr>messages := messages win @
                  [Critical ''Error'' (''Failed to export report: '' @ str_exn e)]\<rparr>, fs')
           | (Inr ok, fs') \<Rightarrow>
               (win\<lparr>messages := messages win @
                  [Information ''Success'' ''Report exported successfully!'']\<rparr>, fs')))"

text \<open>
  The eight known diagnosis labels: the classifier's class names, lower-cased as
  \<open>ImageCard.__init__\<close> does before any lookup.
\<close>

definition known_labels :: "string list" where
  "known_labels = map lower class_names"

section \<open>Lemmas on strings and the knowledge base\<close>

text \<open>
  The definitions that evaluate \<open>lower\<close> and \<open>title\<close> on a concrete string, and the
  keys of the three tables: all three have the eight known labels as their keys, in
  the order of \<open>class_names\<close>.
\<close>

lemmas str_defs = lower_def title_def to_lower_def to_upper_def is_upper_def is_lower_def
  ascii_uppercase_def ascii_lowercase_def dict_get_def

lemma known_labels_eq:
  "known_labels = [''nil control'', ''condensing osteitis'', ''diffuse lesion'',
     ''periapical abcess'', ''periapical granuloma'', ''periapical widening'',
     ''pericoronitis'', ''radicular cyst'']"
  by (simp add: known_labels_def class_names_def str_defs)

lemma findings_keys: "map fst FINDINGS_MAP = known_labels"
  by (simp add: known_labels_eq FINDINGS_MAP_def)

lemma recommendations_keys: "map fst RECOMMENDATIONS_MAP = known_labels"
  by (simp add: known_labels_eq RECOMMENDATIONS_MAP_def)

lemma management_keys: "map fst MANAGEMENT_MAP = known_labels"
  by (simp add: known_labels_eq MANAGEMENT_MAP_def)

lemma findings_entries_nonempty: "list_all (\<lambda>entry. snd entry \<noteq> []) FINDINGS_MAP"
  by (simp add: FINDINGS_MAP_def)

lemma recommendations_entries_nonempty: "list_all (\<lambda>entry. snd entry \<noteq> []) RECOMMENDATIONS_MAP"
  by (simp add: RECOMMENDATIONS_MAP_def)

lemma dict_get_absent: "k \<notin> set (map fst d) \<Longrightarrow> dict_get d k dflt = dflt"
  by (simp add: dict_get_def map_of_eq_None_iff [THEN iffD2])

lemma dict_get_present:
  assumes "k \<in> set (map fst d)" and "list_all (\<lambda>entry. P (snd entry)) d"
  shows "P (dict_get d k dflt)"
proof -
  from assms(1) obtain v where v: "map_of d k = Some v"
    by (metis map_of_eq_None_iff not_Some_eq set_map)
  then have "(k, v) \<in> set d" by (rule map_of_SomeD)
  with assms(2) have "P v" by (auto simp: list_all_iff)
  with v show ?thesis by (simp add: dict_get_def)
qed

lemma map_of_present: "k \<in> set (map fst d) \<Longrightarrow> \<exists>v. map_of d k = Some v"
  by (induction d) auto

text \<open>
  Every management plan of the table has both of its keys, so the \<open>KeyError\<close> branches
  of \<open>add_management_section\<close> are never taken and building a card cannot fail.
\<close>

lemma management_entries_complete:
  "list_all (\<lambda>entry. snd entry \<noteq> [] \<and> map_of (snd entry) ''Immediate Action'' \<noteq> None \<and>
      map_of (snd entry) ''Long-term Plan'' \<noteq> None) MANAGEMENT_MAP"
  by (simp add: MANAGEMENT_MAP_def)

lemma management_plans_complete:
  assumes "map_of MANAGEMENT_MAP label = Some plan"
  shows "plan \<noteq> [] \<and> (\<exists>actions plans. map_of plan ''Immediate Action'' = Some actions \<and>
                                  map_of plan ''Long-term Plan'' = Some plans)"
proof -
  from assms have "(label, plan) \<in> set MANAGEMENT_MAP" by (rule map_of_SomeD)
  with management_entries_complete show ?thesis
    by (auto simp: list_all_iff)
qed

section \<open>Lemmas on cards and case data\<close>

lemma add_management_section_total: "\<exists>ws. add_management_section diagnosis = Inr ws"
proof (cases "map_of MANAGEMENT_MAP diagnosis")
  case None
  then show ?thesis by (simp add: add_management_section_def)
next
  case (Some plan)
  with management_plans_complete [OF Some] show ?thesis
    by (auto simp: add_management_section_def)
qed

lemma ImageCard_total:
  "\<exists>ws. ImageCard path preds =
     Inr \<lparr>image_path = path, predictions = preds,
          primary_diagnosis = (case preds of [] \<Rightarrow> ''unknown'' | p # ps \<Rightarrow> lower (fst p)),
          widgets = ws\<rparr>"
proof -
  obtain m where "add_management_section
      (case preds of [] \<Rightarrow> ''unknown'' | p # ps \<Rightarrow> lower (fst p)) = Inr m"
    using add_management_section_total by blast
  then show ?thesis
    by (simp add: ImageCard_def setup_ui_def Let_def)
qed

text \<open>
  The card of the fallback result, and the dictionary \<open>prepare_case_data\<close> makes of it:
  its management plan is the empty dictionary that \<open>MANAGEMENT_MAP.get(..., {})\<close> returns
  for the label \<open>error\<close>.
\<close>

lemma error_card:
  "ImageCard path error_result =
     Inr \<lparr>image_path = path, predictions = error_result, primary_diagnosis = ''error'',
          widgets =
            [ImageSection path,
             DiagnosisHeader (icon_left_pointing_magnifying_glass @ '' Diagnosis: Error''),
             FindingsGroup [],
             ConfidenceSection 0]\<rparr>"
  by (simp add: ImageCard_def error_result_def setup_ui_def add_management_section_def
      add_image_section_def add_diagnosis_section_def add_confidence_section_def
      add_recommendations_section_def get_findings_for_diagnosis_def get_recommendations_def
      FINDINGS_MAP_def RECOMMENDATIONS_MAP_def MANAGEMENT_MAP_def str_defs)

lemma error_case:
  assumes "predictions c = error_result" and "primary_diagnosis c = ''error''"
  shows "prepare_case_data c =
     Inr \<lparr>case_image_path = image_path c, case_diagnosis = ''Error'', case_confidence = 0,
          case_findings = [], case_recommendations = Some [], case_management = Some []\<rparr>"
  using assms
  by (simp add: prepare_case_data_def error_result_def get_findings_for_diagnosis_def
      get_recommendations_def FINDINGS_MAP_def RECOMMENDATIONS_MAP_def MANAGEMENT_MAP_def
      str_defs)

lemma prepare_case_data_plan:
  assumes a: "predictions c = p # ps" and plan: "map_of MANAGEMENT_MAP (primary_diagnosis c) = Some plan"
  shows "prepare_case_data c =
             Inr \<lparr>case_image_path = image_path c,
                  case_diagnosis = title (primary_diagnosis c),
                  case_confidence = snd p * 100,
                  case_findings = map icon_text (get_findings_for_diagnosis (primary_diagnosis c)),
                  case_recommendations = Some (get_recommendations (primary_diagnosis c)),
                  case_management = Some plan\<rparr>"
  by (simp add: prepare_case_data_def dict_get_def a plan)

lemma known_case:
  assumes "predictions c = p # ps" and "primary_diagnosis c \<in> set known_labels"
  shows "\<exists>d plan actions plans.
           prepare_case_data c = Inr d \<and>
           case_image_path d = image_path c \<and>
           case_diagnosis d = title (primary_diagnosis c) \<and>
           case_management d = Some plan \<and>
           map_of plan ''Immediate Action'' = Some actions \<and>
           map_of plan ''Long-term Plan'' = Some plans"
proof -
  from assms(2) have "primary_diagnosis c \<in> set (map fst MANAGEMENT_MAP)"
    by (simp only: management_keys)
  then obtain plan where plan: "map_of MANAGEMENT_MAP (primary_diagnosis c) = Some plan"
    using map_of_present by fastforce
  from management_plans_complete [OF plan] obtain actions plans
    where keys: "map_of plan ''Immediate Action'' = Some actions"
      "map_of plan ''Long-term Plan'' = Some plans"
    by auto
  show ?thesis
    apply (rule exI [where x = "\<lparr>case_image_path = image_path c,
                  case_diagnosis = title (primary_diagnosis c),
                  case_confidence = snd p * 100,
                  case_findings = map icon_text (get_findings_for_diagnosis (primary_diagnosis c)),
                  case_recommendations = Some (get_recommendations (primary_diagnosis c)),
                  case_management = Some plan\<rparr>"])
    apply (rule exI [where x = plan])
    apply (rule exI [where x = actions])
    apply (rule exI [where x = plans])
    apply (simp add: prepare_case_data_plan [OF assms(1) plan] keys)
    done
qed

section \<open>Lemmas on the report\<close>

lemma add_case_empty_plan:
  "case_management c = Some [] \<Longrightarrow> add_case renv story c n = Inl (KeyError ''Immediate Action'')"
  by (simp add: add_case_def add_case_management_def Let_def)

lemma add_case_management_complete:
  assumes "map_of plan ''Immediate Action'' = Some actions"
    and "map_of plan ''Long-term Plan'' = Some plans"
  shows "add_case_management story (Some plan) =
           Inr (add_section (add_section story ''Immediate Action Required'' actions)
                  ''Long-term Management Plan'' plans)"
  using assms by (simp add: add_case_management_def)

lemma add_case_complete_plan:
  assumes "case_management c = Some plan"
    and "map_of plan ''Immediate Action'' = Some actions"
    and "map_of plan ''Long-term Plan'' = Some plans"
  shows "\<exists>story'. add_case renv story c n = Inr story'"
  unfolding add_case_def Let_def assms(1) add_case_management_complete [OF assms(2,3)]
  by simp

lemma add_section_append:
  "add_section story t items =
     story @ Paragraph t ''SectionTitle'' #
       (if items = [] then []
        else [Table (map (\<lambda>item. [Paragraph (bullet @ '' '' @ item) ''Normal'']) items)]) @
       [Spacer 1 10]"
  by (simp add: add_section_def Let_def)

lemma add_case_with_plan:
  assumes "case_management c = Some plan"
    and "map_of plan ''Immediate Action'' = Some actions"
    and "map_of plan ''Long-term Plan'' = Some plans"
  shows "\<exists>rest. add_case renv story c n =
           Inr (story @ Paragraph (''Case #'' @ str_nat n) ''CaseNumber'' #
                add_case_image renv (case_image_path c) @ rest)"
proof (cases "case_recommendations c")
  case None
  show ?thesis
    unfolding add_case_def Let_def assms(1) add_case_management_complete [OF assms(2,3)] None
      add_section_append
    by simp
next
  case (Some recs)
  show ?thesis
    unfolding add_case_def Let_def assms(1) add_case_management_complete [OF assms(2,3)] Some
      add_section_append
    by simp
qed

text \<open>
  For a card with a known diagnosis, an image that cannot be loaded does not stop the
  report: the placeholder paragraph takes the place of the image and the document is
  written.
\<close>

lemma missing_image_is_replaced:
  assumes preds: "predictions c = p # ps"
    and label: "primary_diagnosis c \<in> set known_labels"
    and missing: "pil_open renv (image_path c) = None"
    and builds: "\<forall>story. build_error renv file_path story = None"
  shows "\<exists>d story. prepare_case_data c = Inr d \<and>
           generate_report renv fs file_path [d] = (Inr True, fs(file_path \<mapsto> story)) \<and>
           Paragraph ''Error: Could not load image'' ''Normal'' \<in> set story"
proof -
  from known_case [OF preds label] obtain d plan actions plans where
    d: "prepare_case_data c = Inr d" "case_image_path d = image_path c"
    and plan: "case_management d = Some plan" "map_of plan ''Immediate Action'' = Some actions"
      "map_of plan ''Long-term Plan'' = Some plans"
    by blast
  from add_case_with_plan [OF plan, of renv "add_header renv []" "Suc 0"] obtain rest where
    "add_case renv (add_header renv []) d (Suc 0) =
       Inr (add_header renv [] @ Paragraph (''Case #'' @ str_nat (Suc 0)) ''CaseNumber'' #
            add_case_image renv (case_image_path d) @ rest)"
    by blast
  moreover have "add_case_image renv (case_image_path d) =
      [Paragraph ''Error: Could not load image'' ''Normal'']"
    by (simp add: add_case_image_def d(2) missing)
  ultimately have "generate_report renv fs file_path [d] =
      (Inr True, fs(file_path \<mapsto>
         (add_header renv [] @ Paragraph (''Case #'' @ str_nat (Suc 0)) ''CaseNumber'' #
            [Paragraph ''Error: Could not load image'' ''Normal''] @ rest) @ [Spacer 1 30]))"
    by (simp add: generate_report_def doc_build_def builds)
  with d(1) show ?thesis by auto
qed

text \<open>
  The generator itself does not look at the number of cases: called with none, it writes
  a document that holds the header alone. \<open>generate_pdf_report\<close> never calls it so.
\<close>

lemma generate_report_without_cases:
  "build_error renv file_path (add_header renv []) = None \<Longrightarrow>
   generate_report renv fs file_path [] = (Inr True, fs(file_path \<mapsto> add_header renv []))"
  by (simp add: generate_report_def doc_build_def)

section \<open>Lemmas on the inference engine and the worker\<close>








lemma predict_example:
  "predict \<lparr>open_rgb = f, model = (\<lambda>t. Some [ln 8, ln 4, ln 2, 0, 0, 0, 0, 0]),
            torch_topk = topk_stable\<rparr> t 3 =
   [(''Nil control'', 8 / 19), (''condensing osteitis'', 4 / 19), (''diffuse lesion'', 2 / 19)]"
  by (simp add: predict_def softmax_def topk_stable_def upt_rec class_names_def)

lemma run_by_cases:
  "(preprocess_image h path = None \<longrightarrow>
      run h path top_k = [Error ''Failed to preprocess image'', Finished error_result path]) \<and>
   (\<forall>t. preprocess_image h path = Some t \<longrightarrow>
      run h path top_k = [Finished (predict h t top_k) path])"
  by (auto simp: run_def)

lemma run_one_finished: "length (filter is_finished (run h path top_k)) = 1"
  by (simp add: run_def is_finished_def split: option.splits)

lemma dispatch_finished:
  "length (filter is_finished (concat (dispatch h file_names))) = length file_names"
  by (induction file_names) (simp_all add: dispatch_def run_one_finished)

lemma filter_length_mset:
  "mset xs = mset ys \<Longrightarrow> length (filter P xs) = length (filter P ys)"
  by (metis mset_filter size_mset)

section \<open>Lemmas on the main window\<close>

text \<open>
  A card, once inserted before the stretch, stays among the items that
  \<open>collect_cases\<close> visits, whatever signals arrive later.
\<close>

lemma collect_items_member:
  "collect_items items = Inr cases \<Longrightarrow> WidgetItem (ImageCardWidget c) \<in> set items \<Longrightarrow>
   \<exists>d \<in> set cases. prepare_case_data c = Inr d"
  by (induction items arbitrary: cases rule: collect_items.induct) (auto split: sum.splits)

lemma insert_before_stretch:
  "grid \<noteq> [] \<Longrightarrow>
   insertWidget grid (int (length grid) - 1) w = butlast grid @ [WidgetItem w, last grid]"
proof -
  assume g: "grid \<noteq> []"
  then have n: "nat (int (length grid) - 1) = length grid - 1"
    by simp
  from g have "drop (length grid - 1) grid = [last grid]"
    by (metis append_butlast_last_id append_eq_conv_conj length_butlast)
  with g n show ?thesis
    by (simp add: insertWidget_def butlast_conv_take)
qed

lemma handle_result_grid:
  assumes "grid_layout win \<noteq> []"
  shows "grid_layout (handle_prediction_result win preds path) \<noteq> [] \<and>
         set (take (length (grid_layout win) - 1) (grid_layout win)) \<subseteq>
         set (take (length (grid_layout (handle_prediction_result win preds path)) - 1)
                (grid_layout (handle_prediction_result win preds path))) \<and>
         (\<forall>c. ImageCard path preds = Inr c \<longrightarrow>
            WidgetItem (ImageCardWidget c) \<in>
              set (take (length (grid_layout (handle_prediction_result win preds path)) - 1)
                (grid_layout (handle_prediction_result win preds path))))"
proof (cases "ImageCard path preds")
  case (Inl e)
  with assms show ?thesis
    by (simp add: handle_prediction_result_def handle_prediction_error_def)
next
  case (Inr c)
  have "grid_layout (handle_prediction_result win preds path) =
        butlast (grid_layout win) @ [WidgetItem (ImageCardWidget c), last (grid_layout win)]"
    using Inr insert_before_stretch [OF assms]
    by (simp add: handle_prediction_result_def Let_def)
  with Inr show ?thesis
    by (auto simp: butlast_conv_take)
qed

lemma deliver_grid:
  assumes "grid_layout win \<noteq> []"
  shows "grid_layout (deliver ev win) \<noteq> [] \<and>
         set (take (length (grid_layout win) - 1) (grid_layout win)) \<subseteq>
         set (take (length (grid_layout (deliver ev win)) - 1) (grid_layout (deliver ev win)))"
proof (cases ev)
  case (Finished preds path)
  with handle_result_grid [OF assms, of preds path] show ?thesis by simp
next
  case (Error m)
  with assms show ?thesis by (simp add: handle_prediction_error_def)
qed

lemma fold_deliver_grid:
  "grid_layout win \<noteq> [] \<Longrightarrow>
   grid_layout (fold deliver evs win) \<noteq> [] \<and>
   set (take (length (grid_layout win) - 1) (grid_layout win)) \<subseteq>
   set (take (length (grid_layout (fold deliver evs win)) - 1)
          (grid_layout (fold deliver evs win)))"
proof (induction evs arbitrary: win)
  case Nil
  then show ?case by simp
next
  case (Cons ev evs)
  from deliver_grid [OF Cons.prems, of ev] Cons.IH [of "deliver ev win"]
  show ?case by auto
qed

lemma handle_result_fields:
  assumes "ImageCard path preds = Inr c" and "grid_layout win \<noteq> []"
  shows "grid_layout (handle_prediction_result win preds path) =
           butlast (grid_layout win) @ [WidgetItem (ImageCardWidget c), last (grid_layout win)]"
    and "messages (handle_prediction_result win preds path) = messages win"
  using assms insert_before_stretch [OF assms(2)]
  by (simp_all add: handle_prediction_result_def Let_def)

lemma handle_error_fields:
  "grid_layout (handle_prediction_error win m) = grid_layout win"
  "messages (handle_prediction_error win m) =
     messages win @ [Warning ''Prediction Error'' (''Error processing image: '' @ m)]"
  by (simp_all add: handle_prediction_error_def)

lemma load_images_fields:
  "grid_layout (load_images win file_names) = grid_layout win"
  "messages (load_images win file_names) = messages win"
  by (simp_all add: load_images_def)

text \<open>
  The progress bar: after \<open>load_images\<close> its range is 0 to the number of files and its
  value 0; each signal delivered, of either kind, asks for the value plus one, which the
  bar takes unless it is at its maximum already.
\<close>

lemma load_images_progress:
  assumes "file_names \<noteq> []" and "pb_minimum (progress win) = 0"
  shows "pb_minimum (progress (load_images win file_names)) = 0"
    and "pb_maximum (progress (load_images win file_names)) = int (length file_names)"
    and "pb_value (progress (load_images win file_names)) = 0"
  using assms
  by (auto simp: load_images_def setValue_def setMaximum_def setRange_def setVisible_def Let_def)

lemma setValue_next:
  assumes "pb_minimum bar = 0" and "0 \<le> pb_value bar" and "pb_value bar \<le> pb_maximum bar"
    and "0 < pb_maximum bar"
  shows "pb_value (setValue bar (pb_value bar + 1)) = min (pb_maximum bar) (pb_value bar + 1)"
    and "pb_minimum (setValue bar (pb_value bar + 1)) = pb_minimum bar"
    and "pb_maximum (setValue bar (pb_value bar + 1)) = pb_maximum bar"
  using assms by (auto simp: setValue_def)

lemma handle_error_progress:
  "progress (handle_prediction_error win m) =
     setValue (progress win) (pb_value (progress win) + 1)"
  by (simp add: handle_prediction_error_def)

lemma handle_result_progress:
  "pb_value (progress (handle_prediction_result win preds path)) =
     pb_value (setValue (progress win) (pb_value (progress win) + 1)) \<and>
   pb_minimum (progress (handle_prediction_result win preds path)) =
     pb_minimum (setValue (progress win) (pb_value (progress win) + 1)) \<and>
   pb_maximum (progress (handle_prediction_result win preds path)) =
     pb_maximum (setValue (progress win) (pb_value (progress win) + 1))"
  by (cases "ImageCard path preds")
     (simp_all add: handle_prediction_result_def handle_error_progress Let_def setVisible_def)

lemma deliver_progress:
  assumes "pb_minimum (progress win) = 0" and "0 \<le> pb_value (progress win)"
    and "pb_value (progress win) \<le> pb_maximum (progress win)"
    and "0 < pb_maximum (progress win)"
  shows "pb_value (progress (deliver ev win)) =
           min (pb_maximum (progress win)) (pb_value (progress win) + 1)"
    and "pb_minimum (progress (deliver ev win)) = 0"
    and "pb_maximum (progress (deliver ev win)) = pb_maximum (progress win)"
  using setValue_next [OF assms] assms(1) handle_result_progress [of win]
  by (cases ev; simp add: handle_error_progress)+

lemma fold_deliver_progress:
  assumes "pb_minimum (progress win) = 0" and "0 \<le> pb_value (progress win)"
    and "pb_value (progress win) \<le> pb_maximum (progress win)"
    and "0 < pb_maximum (progress win)"
  shows "pb_value (progress (fold deliver evs win)) =
           min (pb_maximum (progress win)) (pb_value (progress win) + int (length evs))"
  using assms
proof (induction evs arbitrary: win)
  case Nil
  then show ?case by simp
next
  case (Cons ev evs)
  note step = deliver_progress [OF Cons.prems, of ev]
  have "pb_value (progress (fold deliver evs (deliver ev win))) =
          min (pb_maximum (progress (deliver ev win)))
            (pb_value (progress (deliver ev win)) + int (length evs))"
    by (rule Cons.IH) (use step Cons.prems in auto)
  with step show ?case by auto
qed

section \<open>The claims\<close>

subsection \<open>C1: failed cases and the report\<close>

text \<open>
  Claim C1, as the code has it. A failed inference gives an ordinary card whose only
  prediction is the fallback pair: its primary diagnosis \<open>error\<close> is none of the eight
  known labels, and that is all that tells it from a successful case. The card is not
  filtered out: whatever signals are delivered after it, the list of cases that
  \<open>generate_pdf_report\<close> collects holds its case (diagnosis \<open>Error\<close>, confidence 0, no
  findings), and that list is the one passed to \<open>generate_report\<close>.
\<close>

theorem failed_case_is_exported:
  assumes grid: "grid_layout win \<noteq> []"
    and later: "win' = fold deliver evs (handle_prediction_result win error_result path)"
    and collected: "collect_cases (grid_layout win') = Inr cases"
  shows "''error'' \<notin> set known_labels \<and>
         (\<exists>d \<in> set cases.
            case_image_path d = path \<and> case_diagnosis d = ''Error'' \<and>
            case_confidence d = 0 \<and> case_findings d = []) \<and>
         generate_pdf_report renv win' fs file_path = generate_report renv fs file_path cases"
proof -
  let ?c = "\<lparr>image_path = path, predictions = error_result, primary_diagnosis = ''error'',
          widgets =
            [ImageSection path,
             DiagnosisHeader (icon_left_pointing_magnifying_glass @ '' Diagnosis: Error''),
             FindingsGroup [],
             ConfidenceSection 0]\<rparr>"
  let ?win1 = "handle_prediction_result win error_result path"
  from handle_result_grid [OF grid, of error_result path] error_card [of path]
  have one: "grid_layout ?win1 \<noteq> []"
    and "WidgetItem (ImageCardWidget ?c) \<in>
           set (take (length (grid_layout ?win1) - 1) (grid_layout ?win1))"
    by simp_all
  with fold_deliver_grid [OF one, of evs] later
  have "WidgetItem (ImageCardWidget ?c) \<in> set (take (length (grid_layout win') - 1) (grid_layout win'))"
    by auto
  with collected obtain d where d: "d \<in> set cases" "prepare_case_data ?c = Inr d"
    unfolding collect_cases_def using collect_items_member by blast
  from d(2) error_case [of ?c]
  have "case_image_path d = path \<and> case_diagnosis d = ''Error'' \<and>
        case_confidence d = 0 \<and> case_findings d = []"
    by auto
  moreover from d(1) have "cases \<noteq> []" by auto
  with collected have "generate_pdf_report renv win' fs file_path = generate_report renv fs file_path cases"
    by (simp add: generate_pdf_report_def)
  ultimately show ?thesis using d(1)
    by (auto simp: known_labels_eq)
qed

text \<open>
  The theorem at the new window, with the fallback result for \<open>bad.png\<close> and no later
  signal.
\<close>

theorem failed_case_is_exported_witness:
  "grid_layout new_window \<noteq> [] \<and>
   collect_cases (grid_layout (fold deliver [] (handle_prediction_result new_window error_result ''bad.png''))) =
     Inr [\<lparr>case_image_path = ''bad.png'', case_diagnosis = ''Error'', case_confidence = 0,
           case_findings = [], case_recommendations = Some [], case_management = Some []\<rparr>] \<and>
   ''error'' \<notin> set known_labels \<and>
   (\<exists>d \<in> set [\<lparr>case_image_path = ''bad.png'', case_diagnosis = ''Error'', case_confidence = 0,
           case_findings = [], case_recommendations = Some [], case_management = Some []\<rparr>].
      case_image_path d = ''bad.png'' \<and> case_diagnosis d = ''Error'' \<and>
      case_confidence d = 0 \<and> case_findings d = [])"
proof -
  let ?win' = "fold deliver [] (handle_prediction_result new_window error_result ''bad.png'')"
  let ?cases = "[\<lparr>case_image_path = ''bad.png'', case_diagnosis = ''Error'', case_confidence = 0,
           case_findings = [], case_recommendations = Some [], case_management = Some []\<rparr>]"
  have grid: "grid_layout new_window \<noteq> []"
    by (simp add: new_window_def)
  have collected: "collect_cases (grid_layout ?win') = Inr ?cases"
    by (simp add: handle_prediction_result_def error_card insertWidget_def new_window_def
        collect_cases_def error_case Let_def)
  from failed_case_is_exported [OF grid refl collected] grid collected
  show ?thesis by blast
qed

text \<open>
  Against claim C1 as stated: one image that cannot be preprocessed is loaded; its
  failed case is the list of cases handed to the report generator.
\<close>

theorem failed_case_reaches_report_generator:
  "(let h = \<lparr>open_rgb = (\<lambda>path. None :: unit option), model = (\<lambda>t. None),
             torch_topk = topk_stable\<rparr>;
        renv = \<lparr>pil_open = (\<lambda>path. None), scaled_height = (\<lambda>w h. int (400 * h div w)), now = ''2024-01-01 00:00:00'',
                build_error = (\<lambda>path story. None)\<rparr>;
        win = fold deliver (concat (dispatch h [''bad.png''])) (load_images new_window [''bad.png'']);
        failed = \<lparr>case_image_path = ''bad.png'', case_diagnosis = ''Error'',
                  case_confidence = 0, case_findings = [],
                  case_recommendations = Some [], case_management = Some []\<rparr>
    in collect_cases (grid_layout win) = Inr [failed] \<and>
       generate_pdf_report renv win Map.empty ''report.pdf'' =
         generate_report renv Map.empty ''report.pdf'' [failed])"
  by (simp add: dispatch_def run_def preprocess_image_def load_images_def
      handle_prediction_result_def handle_prediction_error_def error_card insertWidget_def
      new_window_def collect_cases_def error_case Let_def generate_pdf_report_def)

subsection \<open>C2: completion signals and the progress counter\<close>

text \<open>
  Claim C2, as the code has it. When at least one file is submitted, then whichever
  tasks fail and in whatever order the signals of the workers arrive, exactly as many
  completion signals arrive as files were submitted, and the progress counter ends at
  that number. The error handler does advance the counter: right after \<open>load_images\<close>
  it takes it from 0 to 1. (A failed task so asks for two steps; the bar ignores the
  requests beyond its maximum.)
\<close>

theorem progress_reaches_number_of_images:
  assumes files: "file_names \<noteq> []"
    and bar: "pb_minimum (progress win) = 0"
    and order: "mset evs = mset (concat (dispatch h file_names))"
  shows "length (filter is_finished evs) = length file_names \<and>
         pb_value (progress (fold deliver evs (load_images win file_names))) =
           int (length file_names) \<and>
         pb_value (progress (handle_prediction_error (load_images win file_names) error_message)) = 1"
proof -
  let ?start = "load_images win file_names"
  note start = load_images_progress [OF files bar]
  have count: "length (filter is_finished evs) = length file_names"
    using filter_length_mset [OF order] dispatch_finished by simp
  then have "length file_names \<le> length evs"
    by (metis length_filter_le)
  moreover have "pb_value (progress (fold deliver evs ?start)) =
      min (pb_maximum (progress ?start)) (pb_value (progress ?start) + int (length evs))"
    by (rule fold_deliver_progress) (use start files in auto)
  ultimately have final: "pb_value (progress (fold deliver evs ?start)) = int (length file_names)"
    by (simp add: start)
  have "pb_value (progress (handle_prediction_error ?start error_message)) = 1"
    using start files by (auto simp: handle_error_progress setValue_def)
  with count final show ?thesis by simp
qed

text \<open>
  The theorem for two files, the second of which cannot be preprocessed, with the
  signals in an order other than the one of emission.
\<close>

theorem progress_reaches_number_of_images_witness:
  "(let h = \<lparr>open_rgb = (\<lambda>path. if path = ''bad.png'' then None else Some ()),
             model = (\<lambda>t. Some [ln 8, ln 4, ln 2, 0, 0, 0, 0, 0]),
             torch_topk = topk_stable\<rparr>;
        file_names = [''good.png'', ''bad.png''];
        result = [(''Nil control'', 8 / 19), (''condensing osteitis'', 4 / 19),
                  (''diffuse lesion'', 2 / 19)];
        evs = [Finished error_result ''bad.png'', Finished result ''good.png'',
               Error ''Failed to preprocess image'']
    in file_names \<noteq> [] \<and> pb_minimum (progress new_window) = 0 \<and>
       mset evs = mset (concat (dispatch h file_names)) \<and>
       length (filter is_finished evs) = 2 \<and>
       pb_value (progress (fold deliver evs (load_images new_window file_names))) = 2)"
proof -
  let ?h = "\<lparr>open_rgb = (\<lambda>path. if path = ''bad.png'' then None else Some ()),
             model = (\<lambda>t. Some [ln 8, ln 4, ln 2, 0, 0, 0, 0, 0]),
             torch_topk = topk_stable\<rparr> :: unit model_handler"
  let ?files = "[''good.png'', ''bad.png'']"
  let ?evs = "[Finished error_result ''bad.png'',
               Finished [(''Nil control'', 8 / 19), (''condensing osteitis'', 4 / 19),
                  (''diffuse lesion'', 2 / 19)] ''good.png'',
               Error ''Failed to preprocess image'']"
  have files: "?files \<noteq> []" by simp
  have bar: "pb_minimum (progress new_window) = 0"
    by (simp add: new_window_def new_progress_bar_def setVisible_def)
  have order: "mset ?evs = mset (concat (dispatch ?h ?files))"
    by (simp add: dispatch_def run_def preprocess_image_def predict_example)
  from progress_reaches_number_of_images [OF files bar order] files bar order
  show ?thesis by (simp add: Let_def)
qed

text \<open>
  Against claim C2 as stated: with two files loaded, the error handler alone takes the
  counter from 0 to 1, and the two signals of the one failed task take it to 2, the
  maximum, at which the bar is hidden while the other task is still out.
\<close>

theorem error_handler_advances_progress:
  "(let h = \<lparr>open_rgb = (\<lambda>path. if path = ''bad.png'' then None else Some ()),
             model = (\<lambda>t. Some [ln 8, ln 4, ln 2, 0, 0, 0, 0, 0]),
             torch_topk = topk_stable\<rparr>;
        start = load_images new_window [''bad.png'', ''good.png'']
    in pb_value (progress start) = 0 \<and> pb_maximum (progress start) = 2 \<and>
       pb_value (progress (handle_prediction_error start ''Failed to preprocess image'')) = 1 \<and>
       run h ''bad.png'' 3 =
         [Error ''Failed to preprocess image'', Finished error_result ''bad.png''] \<and>
       pb_value (progress (fold deliver (run h ''bad.png'' 3) start)) = 2 \<and>
       \<not> pb_visible (progress (fold deliver (run h ''bad.png'' 3) start)))"
proof -
  let ?start = "load_images new_window [''bad.png'', ''good.png'']"
  have bar: "pb_minimum (progress new_window) = 0"
    by (simp add: new_window_def new_progress_bar_def setVisible_def)
  have start: "pb_minimum (progress ?start) = 0" "pb_maximum (progress ?start) = 2"
      "pb_value (progress ?start) = 0"
    using load_images_progress [OF _ bar, of "[''bad.png'', ''good.png'']"] by simp_all
  obtain c where c: "ImageCard ''bad.png'' error_result = Inr c"
    using error_card by blast
  show ?thesis
    by (simp add: Let_def start run_def preprocess_image_def handle_error_progress
        handle_prediction_result_def c setValue_def setVisible_def)
qed

subsection \<open>C3: the signals of a dispatched task\<close>



subsection \<open>C4: the result of predict\<close>




subsection \<open>C5: a case with an unknown diagnosis in the report\<close>

text \<open>
  Claim C5 fails on the code. The card of a failed inference has the primary diagnosis
  \<open>error\<close>, which is not a known label; \<open>prepare_case_data\<close> gives it the empty
  dictionary as its management plan; \<open>_add_case\<close> finds the key \<open>management\<close> present
  and reads \<open>['Immediate Action']\<close> from the empty dictionary, which raises
  \<open>KeyError\<close>; \<open>generate_report\<close> raises it again and writes nothing.
\<close>

theorem unknown_diagnosis_breaks_report:
  "\<exists>c case_data.
     ImageCard path error_result = Inr c \<and>
     primary_diagnosis c = ''error'' \<and> ''error'' \<notin> set known_labels \<and>
     prepare_case_data c = Inr case_data \<and>
     case_management case_data = Some [] \<and>
     add_case renv story case_data n = Inl (KeyError ''Immediate Action'') \<and>
     generate_report renv fs file_path [case_data] = (Inl (KeyError ''Immediate Action''), fs)"
proof -
  let ?c = "\<lparr>image_path = path, predictions = error_result, primary_diagnosis = ''error'',
          widgets =
            [ImageSection path,
             DiagnosisHeader (icon_left_pointing_magnifying_glass @ '' Diagnosis: Error''),
             FindingsGroup [],
             ConfidenceSection 0]\<rparr>"
  let ?d = "\<lparr>case_image_path = path, case_diagnosis = ''Error'', case_confidence = 0,
          case_findings = [], case_recommendations = Some [], case_management = Some []\<rparr>"
  have d: "prepare_case_data ?c = Inr ?d"
    using error_case [of ?c] by simp
  have raise: "add_case renv s ?d k = Inl (KeyError ''Immediate Action'')" for s k
    by (simp add: add_case_empty_plan)
  have "generate_report renv fs file_path [?d] = (Inl (KeyError ''Immediate Action''), fs)"
    by (simp add: generate_report_def raise)
  with d raise error_card [of path] show ?thesis
    by (simp add: known_labels_eq)
qed

subsection \<open>C6: the lookups of the knowledge base\<close>

text \<open>
  Claim C6. For each of the eight known diagnosis labels the findings lookup and the
  recommendations lookup return a non-empty list; for every other label both return the
  empty list. The lookups are total functions: neither can fail.
\<close>

theorem lookups_on_known_and_unknown_labels:
  "(\<forall>label \<in> set known_labels.
      get_findings_for_diagnosis label \<noteq> [] \<and> get_recommendations label \<noteq> []) \<and>
   (\<forall>label. label \<notin> set known_labels \<longrightarrow>
      get_findings_for_diagnosis label = [] \<and> get_recommendations label = [])"
proof (intro conjI ballI allI impI)
  fix label assume "label \<in> set known_labels"
  then show "get_findings_for_diagnosis label \<noteq> []"
    unfolding get_findings_for_diagnosis_def
    using dict_get_present [of label FINDINGS_MAP "\<lambda>v. v \<noteq> []"] findings_entries_nonempty
    by (simp add: findings_keys)
next
  fix label assume "label \<in> set known_labels"
  then show "get_recommendations label \<noteq> []"
    unfolding get_recommendations_def
    using dict_get_present [of label RECOMMENDATIONS_MAP "\<lambda>v. v \<noteq> []"]
      recommendations_entries_nonempty
    by (simp add: recommendations_keys)
next
  fix label assume "label \<notin> set known_labels"
  then show "get_findings_for_diagnosis label = []"
    unfolding get_findings_for_diagnosis_def
    by (simp add: dict_get_absent findings_keys)
next
  fix label assume "label \<notin> set known_labels"
  then show "get_recommendations label = []"
    unfolding get_recommendations_def
    by (simp add: dict_get_absent recommendations_keys)
qed

text \<open>
  The claim at one known label and at the label of a failed inference.
\<close>

theorem lookups_on_known_and_unknown_labels_witness:
  "''periapical abcess'' \<in> set known_labels \<and>
   length (get_findings_for_diagnosis ''periapical abcess'') = 6 \<and>
   get_findings_for_diagnosis ''periapical abcess'' \<noteq> [] \<and>
   get_recommendations ''periapical abcess'' \<noteq> [] \<and>
   ''error'' \<notin> set known_labels \<and>
   get_findings_for_diagnosis ''error'' = [] \<and>
   get_recommendations ''error'' = []"
proof -
  have known: "''periapical abcess'' \<in> set known_labels"
    and unknown: "''error'' \<notin> set known_labels"
    by (simp_all add: known_labels_eq)
  have six: "length (get_findings_for_diagnosis ''periapical abcess'') = 6"
    by (simp add: get_findings_for_diagnosis_def dict_get_def FINDINGS_MAP_def)
  from lookups_on_known_and_unknown_labels known unknown six show ?thesis
    by blast
qed

subsection \<open>C7: export without cases\<close>

text \<open>
  Claim C7. When the window holds no case to export, \<open>_generate_pdf_report\<close> raises
  \<open>ValueError("No cases to export")\<close> before the report generator is called, and
  \<open>export_report\<close> reports the failure (a warning when the layout holds the stretch
  alone, else the error raised), unless the user cancelled the dialog; in every case
  the file system is left as it was.
\<close>

theorem empty_batch_export:
  assumes "collect_cases (grid_layout win) = Inr []"
  shows "generate_pdf_report renv win fs file_path = (Inl (ValueError ''No cases to export''), fs) \<and>
         export_report renv win fs file_name =
           (if length (grid_layout win) \<le> 1
            then (win\<lparr>messages := messages win @ [Warning ''Warning'' ''No images to export!'']\<rparr>, fs)
            else if file_name = [] then (win, fs)
            else (win\<lparr>messages := messages win @
                    [Critical ''Error'' ''Failed to export report: No cases to export'']\<rparr>, fs))"
  using assms by (simp add: generate_pdf_report_def export_report_def)

text \<open>
  The claim at the new window, which holds the stretch alone.
\<close>

theorem empty_batch_export_witness:
  "(let renv = \<lparr>pil_open = (\<lambda>path. None), scaled_height = (\<lambda>w h. int (400 * h div w)), now = ''2024-01-01 00:00:00'',
                build_error = (\<lambda>path story. None)\<rparr>
    in collect_cases (grid_layout new_window) = Inr [] \<and>
       generate_pdf_report renv new_window Map.empty ''report.pdf'' =
         (Inl (ValueError ''No cases to export''), Map.empty) \<and>
       export_report renv new_window Map.empty ''report.pdf'' =
         (new_window\<lparr>messages := [Warning ''Warning'' ''No images to export!'']\<rparr>, Map.empty))"
proof -
  let ?renv = "\<lparr>pil_open = (\<lambda>path. None), scaled_height = (\<lambda>w h. int (400 * h div w)), now = ''2024-01-01 00:00:00'',
                build_error = (\<lambda>path story. None)\<rparr>"
  have c: "collect_cases (grid_layout new_window) = Inr []"
    by (simp add: collect_cases_def new_window_def)
  from empty_batch_export [OF c, of ?renv Map.empty "''report.pdf''" "''report.pdf''"] c
  show ?thesis by (simp add: new_window_def Let_def)
qed

subsection \<open>C8: export of a batch with an image that cannot be loaded\<close>

text \<open>
  Claim C8 fails on the code. Three images are submitted, the second is corrupt: it
  can neither be preprocessed nor loaded for the report. All three cases are collected,
  the second with the diagnosis \<open>Error\<close>; \<open>generate_report\<close> raises \<open>KeyError\<close> on it
  (as for claim C5), so \<open>export_report\<close> shows the error and no document is written.
\<close>

theorem corrupt_image_aborts_export:
  "(let h = \<lparr>open_rgb = (\<lambda>path. if path = ''scan2.png'' then None else Some ()),
             model = (\<lambda>t. Some [ln 8, ln 4, ln 2, 0, 0, 0, 0, 0]),
             torch_topk = topk_stable\<rparr>;
        renv = \<lparr>pil_open = (\<lambda>path. if path = ''scan2.png'' then None else Some (800, 600)),
                scaled_height = (\<lambda>w h. int (400 * h div w)), now = ''2024-01-01 00:00:00'',
                build_error = (\<lambda>path story. None)\<rparr>;
        file_names = [''scan1.png'', ''scan2.png'', ''scan3.png''];
        win = fold deliver (concat (dispatch h file_names)) (load_images new_window file_names)
    in (case collect_cases (grid_layout win) of
          Inl e \<Rightarrow> False
        | Inr cases \<Rightarrow>
            map case_image_path cases = file_names \<and>
            map case_diagnosis cases = [''Nil Control'', ''Error'', ''Nil Control''] \<and>
            generate_report renv Map.empty ''report.pdf'' cases =
              (Inl (KeyError ''Immediate Action''), Map.empty)) \<and>
       export_report renv win Map.empty ''report.pdf'' =
         (win\<lparr>messages := messages win @
             [Critical ''Error''
               (''Failed to export report: '' @ [CHR 0x27] @ ''Immediate Action'' @ [CHR 0x27])]\<rparr>,
          Map.empty))"
proof -
  let ?h = "\<lparr>open_rgb = (\<lambda>path. if path = ''scan2.png'' then None else Some ()),
             model = (\<lambda>t. Some [ln 8, ln 4, ln 2, 0, 0, 0, 0, 0]),
             torch_topk = topk_stable\<rparr> :: unit model_handler"
  let ?renv = "\<lparr>pil_open = (\<lambda>path. if path = ''scan2.png'' then None else Some (800, 600)),
                scaled_height = (\<lambda>w h. int (400 * h div w)), now = ''2024-01-01 00:00:00'',
                build_error = (\<lambda>path story. None)\<rparr>"
  let ?files = "[''scan1.png'', ''scan2.png'', ''scan3.png'']"
  let ?P = "[(''Nil control'', 8 / 19), (''condensing osteitis'', 4 / 19), (''diffuse lesion'', 2 / 19)]
              :: (string \<times> real) list"
  let ?wa = "load_images new_window ?files"
  let ?wb = "handle_prediction_result ?wa ?P ''scan1.png''"
  let ?wc = "handle_prediction_error ?wb ''Failed to preprocess image''"
  let ?wd = "handle_prediction_result ?wc error_result ''scan2.png''"
  let ?win = "handle_prediction_result ?wd ?P ''scan3.png''"
  have signals: "concat (dispatch ?h ?files) =
      [Finished ?P ''scan1.png'', Error ''Failed to preprocess image'',
       Finished error_result ''scan2.png'', Finished ?P ''scan3.png'']"
    by (simp add: dispatch_def run_def preprocess_image_def predict_example)
  have win: "fold deliver (concat (dispatch ?h ?files)) ?wa = ?win"
    unfolding signals by simp
  obtain ws1 where c1: "ImageCard ''scan1.png'' ?P =
      Inr \<lparr>image_path = ''scan1.png'', predictions = ?P,
           primary_diagnosis = lower ''Nil control'', widgets = ws1\<rparr>" (is "_ = Inr ?c1")
    using ImageCard_total [of "''scan1.png''" ?P] by auto
  obtain ws3 where c3: "ImageCard ''scan3.png'' ?P =
      Inr \<lparr>image_path = ''scan3.png'', predictions = ?P,
           primary_diagnosis = lower ''Nil control'', widgets = ws3\<rparr>" (is "_ = Inr ?c3")
    using ImageCard_total [of "''scan3.png''" ?P] by auto
  obtain ws2 where c2: "ImageCard ''scan2.png'' error_result =
      Inr \<lparr>image_path = ''scan2.png'', predictions = error_result,
           primary_diagnosis = ''error'', widgets = ws2\<rparr>" (is "_ = Inr ?c2")
    using error_card [of "''scan2.png''"] by simp
  have g0: "grid_layout ?wa = [StretchItem]"
    by (simp add: load_images_fields new_window_def)
  have g1: "grid_layout ?wb = [WidgetItem (ImageCardWidget ?c1), StretchItem]"
    using handle_result_fields(1) [OF c1, of ?wa] by (simp add: g0)
  have g2: "grid_layout ?wc = [WidgetItem (ImageCardWidget ?c1), StretchItem]"
    by (simp only: handle_error_fields g1)
  have g3: "grid_layout ?wd =
      [WidgetItem (ImageCardWidget ?c1), WidgetItem (ImageCardWidget ?c2), StretchItem]"
    using handle_result_fields(1) [OF c2, of ?wc] by (simp add: g2)
  have g: "grid_layout ?win =
      [WidgetItem (ImageCardWidget ?c1), WidgetItem (ImageCardWidget ?c2),
       WidgetItem (ImageCardWidget ?c3), StretchItem]"
    using handle_result_fields(1) [OF c3, of ?wd] by (simp add: g3)
  have nil: "lower ''Nil control'' = ''nil control''" "title ''nil control'' = ''Nil Control''"
    by (simp_all add: str_defs)
  have known: "''nil control'' \<in> set known_labels"
    by (simp add: known_labels_eq)
  obtain d1 plan1 a1 l1 where d1: "prepare_case_data ?c1 = Inr d1"
      "case_image_path d1 = ''scan1.png''" "case_diagnosis d1 = ''Nil Control''"
      "case_management d1 = Some plan1" "map_of plan1 ''Immediate Action'' = Some a1"
      "map_of plan1 ''Long-term Plan'' = Some l1"
    using known_case [of ?c1] known by (auto simp: nil)
  obtain d3 where d3: "prepare_case_data ?c3 = Inr d3"
      "case_image_path d3 = ''scan3.png''" "case_diagnosis d3 = ''Nil Control''"
    using known_case [of ?c3] known by (auto simp: nil)
  let ?d2 = "\<lparr>case_image_path = ''scan2.png'', case_diagnosis = ''Error'', case_confidence = 0,
          case_findings = [], case_recommendations = Some [], case_management = Some []\<rparr>"
  have d2: "prepare_case_data ?c2 = Inr ?d2"
    using error_case [of ?c2] by simp
  have cases: "collect_cases (grid_layout ?win) = Inr [d1, ?d2, d3]"
    by (simp add: g collect_cases_def d1(1) d2 d3(1))
  obtain story1 where first: "add_case ?renv (add_header ?renv []) d1 (Suc 0) = Inr story1"
    using add_case_complete_plan [OF d1(4-6)] by blast
  have report: "generate_report ?renv Map.empty ''report.pdf'' [d1, ?d2, d3] =
      (Inl (KeyError ''Immediate Action''), Map.empty)"
    by (simp add: generate_report_def first add_case_empty_plan)
  have len: "\<not> length (grid_layout ?win) \<le> 1"
    by (simp add: g)
  have export: "export_report ?renv ?win Map.empty ''report.pdf'' =
      (?win\<lparr>messages := messages ?win @
             [Critical ''Error''
               (''Failed to export report: '' @ [CHR 0x27] @ ''Immediate Action'' @ [CHR 0x27])]\<rparr>,
          Map.empty)"
    using len cases report by (simp add: export_report_def generate_pdf_report_def)
  show ?thesis
    unfolding Let_def win
    using cases report export d1(2,3) d3(2,3) by simp
qed

subsection \<open>C10: a card without predictions\<close>

text \<open>
  Claim C10. Building a card from an empty list of predictions succeeds: the primary
  diagnosis is \<open>unknown\<close>, the confidence shown is 0.0, the findings group has no
  entry, and neither a management group nor a recommendations group is added.
\<close>

theorem empty_predictions_card:
  "ImageCard path [] =
     Inr \<lparr>image_path = path, predictions = [], primary_diagnosis = ''unknown'',
          widgets =
            [ImageSection path,
             DiagnosisHeader (icon_left_pointing_magnifying_glass @ '' Diagnosis: Unknown''),
             FindingsGroup [],
             ConfidenceSection 0]\<rparr> \<and>
   get_findings_for_diagnosis ''unknown'' = [] \<and>
   get_recommendations ''unknown'' = [] \<and>
   add_management_section ''unknown'' = Inr []"
  by (simp add: ImageCard_def setup_ui_def add_management_section_def add_image_section_def
      add_diagnosis_section_def add_confidence_section_def add_recommendations_section_def
      get_findings_for_diagnosis_def get_recommendations_def
      FINDINGS_MAP_def RECOMMENDATIONS_MAP_def MANAGEMENT_MAP_def str_defs)

end
